theory Spec2Isabelle
  imports Main
begin

section \<open>The HDF5 C lexer of docs/design-doc/hdf5-c-lexer.py\<close>

subsection \<open>Pygments token types\<close>

text \<open>
  The lexer imports \<^verbatim>\<open>Name\<close> and \<^verbatim>\<open>Keyword\<close> from \<^verbatim>\<open>pygments.token\<close>. A Pygments
  token type is a tuple of names read from the root \<^verbatim>\<open>Token\<close>: \<^verbatim>\<open>Name\<close> is
  \<^verbatim>\<open>('Name',)\<close>, \<^verbatim>\<open>Keyword\<close> is \<^verbatim>\<open>('Keyword',)\<close>, \<^verbatim>\<open>Name.Function\<close> is
  \<^verbatim>\<open>('Name', 'Function')\<close>. Pygments keeps one object for each such tuple, so the
  identity test \<^verbatim>\<open>token is Name\<close> of the source is equality of the two tuples.
\<close>

datatype tokentype = TokenType "string list"

fun path :: "tokentype \<Rightarrow> string list" where
  "path (TokenType p) = p"

definition Name :: tokentype where
  "Name = TokenType [''Name'']"

definition Keyword :: tokentype where
  "Keyword = TokenType [''Keyword'']"

text \<open>
  Two more token types of \<^verbatim>\<open>pygments.token\<close>, which the inherited C lexer gives to
  comments and to the names of functions: \<^verbatim>\<open>Comment\<close> and \<^verbatim>\<open>Name.Function\<close>.
\<close>

definition Comment :: tokentype where
  "Comment = TokenType [''Comment'']"

definition Name_Function :: tokentype where
  "Name_Function = TokenType [''Name'', ''Function'']"

text \<open>
  Pygments' subsumption test \<^verbatim>\<open>child in parent\<close> holds when the two are identical or
  \<^verbatim>\<open>child[:len(parent)] == parent\<close>. A strict subtype is a subsumed type that is not the
  parent itself, as \<^verbatim>\<open>Name.Function\<close> is of \<^verbatim>\<open>Name\<close>.
\<close>

definition strict_subtype :: "tokentype \<Rightarrow> tokentype \<Rightarrow> bool" where
  "strict_subtype child parent =
     (child \<noteq> parent \<and> take (length (path parent)) (path child) = path parent)"

subsection \<open>The class attribute EXTRA-KEYWORDS\<close>

definition EXTRA_KEYWORDS :: "string list" where
  "EXTRA_KEYWORDS =
     [''hid_t'', ''herr_t'', ''hbool_t'', ''hsize_t'', ''htri_t'', ''H5I_type_t'',
      ''haddr_t'', ''uuid_t'', ''H5VL_token_t'', ''H5R_ref_t'', ''H5R_type_t'',
      ''H5O_type_t'', ''H5G_obj_t'', ''hobj_ref_t'', ''hdset_reg_ref_t'', ''MPI_Comm'',
      ''MPI_Info'']"

subsection \<open>Token streams\<close>

text \<open>
  A token is the triple \<^verbatim>\<open>(index, token, value)\<close> that a Pygments lexer yields: the
  offset of the lexeme in the text, its token type and its text.

  \<^verbatim>\<open>CLexer.get_tokens_unprocessed(self, text)\<close> is a generator of the Pygments library.
  A run of it is modelled by what it does when it is asked for the next item, until it
  ends: it yields a token and goes on, it is exhausted (\<^verbatim>\<open>StopIteration\<close>), or it raises
  an exception \<open>e\<close> of its own.
\<close>

type_synonym token = "int \<times> tokentype \<times> string"

datatype 'e generator =
    StopIteration
  | Raise 'e
  | Yield token "'e generator"

text \<open>The tokens a run yields, in order, and the exception it ends with, if any.\<close>

fun yielded :: "'e generator \<Rightarrow> token list" where
  "yielded StopIteration = []"
| "yielded (Raise e) = []"
| "yielded (Yield t g) = t # yielded g"

fun raised :: "'e generator \<Rightarrow> 'e option" where
  "raised StopIteration = None"
| "raised (Raise e) = Some e"
| "raised (Yield t g) = raised g"

subsection \<open>HDF5CLexer.get-tokens-unprocessed\<close>

text \<open>
  \<^verbatim>\<open>
  def get_tokens_unprocessed(self, text):
      for index, token, value in CLexer.get_tokens_unprocessed(self, text):
          if token is Name and value in self.EXTRA_KEYWORDS:
              yield index, Keyword, value
          else:
              yield index, token, value
  \<close>
  \<open>get_tokens_unprocessed\<close> is the body of the method, lines 21 to 25: the loop over the
  run of the inherited generator on \<^verbatim>\<open>text\<close>, which is its argument. The
  \<^verbatim>\<open>for\<close> loop ends when that run is exhausted, and an exception of the inherited
  generator leaves the loop and this generator as it is, there being no handler. The
  parameter list of line 20, and the calls that the inherited generator makes on the lexer
  it runs for, are modelled further down (\<open>lexer_get_tokens_unprocessed\<close>).
\<close>

fun get_tokens_unprocessed :: "'e generator \<Rightarrow> 'e generator" where
  "get_tokens_unprocessed StopIteration = StopIteration"
| "get_tokens_unprocessed (Raise e) = Raise e"
| "get_tokens_unprocessed (Yield (index, token, value) rest) =
     (if token = Name \<and> value \<in> set EXTRA_KEYWORDS
      then Yield (index, Keyword, value) (get_tokens_unprocessed rest)
      else Yield (index, token, value) (get_tokens_unprocessed rest))"

subsection \<open>The parameters of the method, and the lexer calling itself\<close>

text \<open>
  Line 20 declares \<^verbatim>\<open>def get_tokens_unprocessed(self, text)\<close>. The method it overrides is
  declared with one parameter more, in \<^verbatim>\<open>pygments/lexers/c_cpp.py\<close> as in
  \<^verbatim>\<open>pygments/lexer.py\<close>:
  \<^verbatim>\<open>
  def get_tokens_unprocessed(self, text, stack=('root',)):
      for index, token, value in \
              RegexLexer.get_tokens_unprocessed(self, text, stack):
          if token is Name:
              if self.stdlibhighlighting and value in self.stdlib_types:
                  token = Keyword.Type
              elif ...
          yield index, token, value
  \<close>
  A Python call that passes a keyword argument which is no parameter of the function
  raises \<^verbatim>\<open>TypeError\<close> before the body runs. So a run of the method ends with an
  exception \<open>e\<close> of the inherited generator, or with a \<^verbatim>\<open>TypeError\<close> of a call.
\<close>

datatype 'e exception = TypeError | Inherited 'e

datatype lexer_class = CLexer | HDF5CLexer

fun parameters :: "lexer_class \<Rightarrow> string list" where
  "parameters CLexer = [''self'', ''text'', ''stack'']"
| "parameters HDF5CLexer = [''self'', ''text'']"

text \<open>
  The call in question is \<^verbatim>\<open>lx.get_tokens_unprocessed(match.group(), **gt_kwargs)\<close>: the
  first two parameters are bound by position, and each keyword of \<^verbatim>\<open>gt_kwargs\<close> has
  to be one of the parameters that are left.
\<close>

definition accepts :: "lexer_class \<Rightarrow> string list \<Rightarrow> bool" where
  "accepts c kwargs = list_all (\<lambda>k. k \<in> set (drop 2 (parameters c))) kwargs"

text \<open>
  Token types of \<^verbatim>\<open>pygments.token\<close> that the C lexer uses:
  \<^verbatim>\<open>Whitespace = Text.Whitespace\<close>, \<^verbatim>\<open>Punctuation\<close> and \<^verbatim>\<open>Keyword.Type\<close>.
\<close>

definition Whitespace :: tokentype where
  "Whitespace = TokenType [''Text'', ''Whitespace'']"

definition Punctuation :: tokentype where
  "Punctuation = TokenType [''Punctuation'']"

definition Keyword_Type :: tokentype where
  "Keyword_Type = TokenType [''Keyword'', ''Type'']"

text \<open>
  The loop of \<^verbatim>\<open>CFamilyLexer.get_tokens_unprocessed\<close> shown above, which is
  \<^verbatim>\<open>CLexer.get_tokens_unprocessed\<close>. The parameter \<open>library_types\<close> stands for the
  names of \<^verbatim>\<open>stdlib_types\<close>, \<^verbatim>\<open>c99_types\<close>, \<^verbatim>\<open>c11_atomic_types\<close> and
  \<^verbatim>\<open>linux_types\<close> whose option is switched on.
\<close>

fun CFamilyLexer_loop :: "string list \<Rightarrow> 'x generator \<Rightarrow> 'x generator" where
  "CFamilyLexer_loop library_types StopIteration = StopIteration"
| "CFamilyLexer_loop library_types (Raise e) = Raise e"
| "CFamilyLexer_loop library_types (Yield (index, token, value) rest) =
     (if token = Name \<and> value \<in> set library_types
      then Yield (index, Keyword_Type, value) (CFamilyLexer_loop library_types rest)
      else Yield (index, token, value) (CFamilyLexer_loop library_types rest))"

text \<open>
  What \<^verbatim>\<open>self.get_tokens_unprocessed\<close> does with the run of
  \<^verbatim>\<open>RegexLexer.get_tokens_unprocessed\<close>, by the class of \<^verbatim>\<open>self\<close>: a \<^verbatim>\<open>CLexer\<close> runs
  the loop of \<^verbatim>\<open>CFamilyLexer\<close>, and an \<^verbatim>\<open>HDF5CLexer\<close> runs its own loop over that.
\<close>

fun method_body :: "lexer_class \<Rightarrow> string list \<Rightarrow> 'x generator \<Rightarrow> 'x generator" where
  "method_body CLexer library_types g = CFamilyLexer_loop library_types g"
| "method_body HDF5CLexer library_types g =
     get_tokens_unprocessed (CFamilyLexer_loop library_types g)"

text \<open>
  \<^verbatim>\<open>RegexLexer.get_tokens_unprocessed(self, text, stack)\<close> matches the rules of the lexer
  against the text. A rule whose action is a token type yields a token. A rule of the C
  lexer whose action is \<^verbatim>\<open>using(this)\<close> or \<^verbatim>\<open>using(this, state='whitespace')\<close> runs
  this callback of \<^verbatim>\<open>pygments/lexer.py\<close> on a part of the match, where \<^verbatim>\<open>lx\<close> is the
  lexer itself and \<^verbatim>\<open>gt_kwargs\<close> is empty or holds \<^verbatim>\<open>stack\<close>:
  \<^verbatim>\<open>
  s = match.start()
  for i, t, v in lx.get_tokens_unprocessed(match.group(), **gt_kwargs):
      yield i + s, t, v
  \<close>
  What the matching does on a given text and stack is a value of the type \<open>inherited\<close>:
  it is exhausted, it fails with an exception of its own, it yields a token and goes on,
  or (\<open>Using kwargs s sub rest\<close>) it calls the lexer with the keywords \<open>kwargs\<close> on a
  part of the match that starts at \<open>s\<close> and goes on with \<open>rest\<close>, \<open>sub\<close> being what
  the matching does on that part.
\<close>

datatype 'e inherited =
    Exhausted
  | Fails 'e
  | Emit token "'e inherited"
  | Using "string list" int "'e inherited" "'e inherited"

text \<open>The loop of the callback, followed by the rest of the run that called it.\<close>

fun shifted :: "int \<Rightarrow> 'x generator \<Rightarrow> 'x generator \<Rightarrow> 'x generator" where
  "shifted s StopIteration rest = rest"
| "shifted s (Raise e) rest = Raise e"
| "shifted s (Yield (i, t, v) g) rest = Yield (i + s, t, v) (shifted s g rest)"

fun RegexLexer_get_tokens_unprocessed ::
  "lexer_class \<Rightarrow> string list \<Rightarrow> 'e inherited \<Rightarrow> 'e exception generator" where
  "RegexLexer_get_tokens_unprocessed c library_types Exhausted = StopIteration"
| "RegexLexer_get_tokens_unprocessed c library_types (Fails e) = Raise (Inherited e)"
| "RegexLexer_get_tokens_unprocessed c library_types (Emit t rest) =
     Yield t (RegexLexer_get_tokens_unprocessed c library_types rest)"
| "RegexLexer_get_tokens_unprocessed c library_types (Using kwargs s sub rest) =
     (if accepts c kwargs
      then shifted s
             (method_body c library_types
                (RegexLexer_get_tokens_unprocessed c library_types sub))
             (RegexLexer_get_tokens_unprocessed c library_types rest)
      else Raise TypeError)"

text \<open>
  The run of \<^verbatim>\<open>lexer.get_tokens_unprocessed(text)\<close> for a lexer of the class \<open>c\<close>, the
  matching doing \<open>m\<close> on \<^verbatim>\<open>text\<close>. For \<open>HDF5CLexer\<close> this is the method of the source
  as a whole.
\<close>

definition lexer_get_tokens_unprocessed ::
  "lexer_class \<Rightarrow> string list \<Rightarrow> 'e inherited \<Rightarrow> 'e exception generator" where
  "lexer_get_tokens_unprocessed c library_types m =
     method_body c library_types (RegexLexer_get_tokens_unprocessed c library_types m)"

text \<open>
  What the matching does on the text \<^verbatim>\<open>hid_t f();\<close> from the stack \<^verbatim>\<open>('root',)\<close>. The
  rule of the C lexer for function declarations matches the whole text, and its action
  \<^verbatim>\<open>
  bygroups(using(this), using(this, state='whitespace'),
           Name.Function, using(this, state='whitespace'),
           using(this), using(this, state='whitespace'),
           using(this), Punctuation)
  \<close>
  takes the eight groups of the match in turn: \<^verbatim>\<open>'hid_t '\<close> at 0, the empty string at
  6, \<^verbatim>\<open>'f'\<close> at 6, the empty string at 7, \<^verbatim>\<open>'()'\<close> at 7, the empty string at 9 twice,
  and \<^verbatim>\<open>';'\<close> at 9.
\<close>

definition prototype :: "'e inherited" where
  "prototype =
     Using [] 0 (Emit (0, Name, ''hid_t'') (Emit (5, Whitespace, '' '') Exhausted))
    (Using [''stack''] 6 Exhausted
    (Emit (6, Name_Function, ''f'')
    (Using [''stack''] 7 Exhausted
    (Using [] 7 (Emit (0, Punctuation, ''('') (Emit (1, Punctuation, '')'') Exhausted))
    (Using [''stack''] 9 Exhausted
    (Using [] 9 Exhausted
    (Emit (9, Punctuation, '';'') Exhausted)))))))"

section \<open>Properties\<close>

subsection \<open>The loop, token by token\<close>

text \<open>
  The run of \<^verbatim>\<open>get_tokens_unprocessed\<close> yields, for each token of the inherited run
  and in the same order, what the body of the loop makes of that token.
\<close>

lemma yielded_get_tokens_unprocessed:
  "yielded (get_tokens_unprocessed g) =
     map (\<lambda>(index, token, value).
            if token = Name \<and> value \<in> set EXTRA_KEYWORDS
            then (index, Keyword, value) else (index, token, value))
         (yielded g)"
proof (induction g)
  case StopIteration
  show ?case by simp
next
  case (Raise e)
  show ?case by simp
next
  case (Yield t g)
  obtain index token "value" where t: "t = (index, token, value)"
    by (cases t) auto
  from Yield show ?case
    unfolding t by simp
qed

lemma length_yielded_get_tokens_unprocessed:
  "length (yielded (get_tokens_unprocessed g)) = length (yielded g)"
  by (simp add: yielded_get_tokens_unprocessed)

lemma nth_yielded_get_tokens_unprocessed:
  assumes "i < length (yielded g)" and "yielded g ! i = (index, token, value)"
  shows "yielded (get_tokens_unprocessed g) ! i =
           (if token = Name \<and> value \<in> set EXTRA_KEYWORDS
            then (index, Keyword, value) else (index, token, value))"
  using assms by (simp add: yielded_get_tokens_unprocessed)

lemma Keyword_neq_Name: "Keyword \<noteq> Name"
  by (simp add: Keyword_def Name_def)

subsection \<open>The keyword list\<close>

text \<open>
  C2, as the source has it: \<^verbatim>\<open>EXTRA_KEYWORDS\<close> is a list of exactly 17 strings, all
  different from each other.
\<close>

theorem EXTRA_KEYWORDS_length: "length EXTRA_KEYWORDS = 17 \<and> distinct EXTRA_KEYWORDS"
  by (simp add: EXTRA_KEYWORDS_def)

text \<open>C2 as the specification words it fails: the list does not hold 18 strings.\<close>

theorem EXTRA_KEYWORDS_not_18: "\<not> length EXTRA_KEYWORDS = 18"
  by (simp add: EXTRA_KEYWORDS_def)

subsection \<open>Reclassification\<close>

text \<open>
  C1: a token of the inherited run whose type is \<^verbatim>\<open>Name\<close> itself and whose text is in
  \<^verbatim>\<open>EXTRA_KEYWORDS\<close> comes out at the same place of the run with the type
  \<^verbatim>\<open>Keyword\<close>, its index and its text being the same.
\<close>

theorem keyword_name_reclassified:
  assumes "i < length (yielded g)"
    and "yielded g ! i = (index, Name, value)"
    and "value \<in> set EXTRA_KEYWORDS"
  shows "yielded (get_tokens_unprocessed g) ! i = (index, Keyword, value)"
  using nth_yielded_get_tokens_unprocessed [OF assms(1) assms(2)] assms(3) by simp

theorem keyword_name_reclassified_witness:
  "yielded (Yield (0, Name, ''herr_t'') (Yield (7, Name, ''status'') StopIteration)) ! 0
     = (0, Name, ''herr_t'')
   \<and> ''herr_t'' \<in> set EXTRA_KEYWORDS
   \<and> yielded (get_tokens_unprocessed
        (Yield (0, Name, ''herr_t'') (Yield (7, Name, ''status'') StopIteration))) ! 0
     = (0, Keyword, ''herr_t'')"
proof -
  let ?g = "Yield (0, Name, ''herr_t'') (Yield (7, Name, ''status'') StopIteration)"
  have len: "0 < length (yielded ?g)" by simp
  have at: "yielded ?g ! 0 = (0, Name, ''herr_t'')" by simp
  have mem: "''herr_t'' \<in> set EXTRA_KEYWORDS" by (simp add: EXTRA_KEYWORDS_def)
  from keyword_name_reclassified [OF len at mem] at mem show ?thesis by blast
qed

text \<open>
  C3: a token of the inherited run that does not meet the condition of the loop (its type
  is \<^verbatim>\<open>Name\<close> itself and its text is in \<^verbatim>\<open>EXTRA_KEYWORDS\<close>) comes out at the same
  place as it went in: the same index, the same type and the same text.
\<close>

theorem other_token_unchanged:
  assumes "i < length (yielded g)"
    and "yielded g ! i = (index, token, value)"
    and "\<not> (token = Name \<and> value \<in> set EXTRA_KEYWORDS)"
  shows "yielded (get_tokens_unprocessed g) ! i = yielded g ! i"
  using nth_yielded_get_tokens_unprocessed [OF assms(1) assms(2)] assms(2) assms(3)
  by simp

theorem other_token_unchanged_witness:
  "yielded (Yield (0, Name, ''hsize_t'') (Yield (8, Name, ''dims'') StopIteration)) ! 1
     = (8, Name, ''dims'')
   \<and> \<not> (Name = Name \<and> ''dims'' \<in> set EXTRA_KEYWORDS)
   \<and> yielded (get_tokens_unprocessed
        (Yield (0, Name, ''hsize_t'') (Yield (8, Name, ''dims'') StopIteration))) ! 1
     = (8, Name, ''dims'')"
proof -
  let ?g = "Yield (0, Name, ''hsize_t'') (Yield (8, Name, ''dims'') StopIteration)"
  have len: "1 < length (yielded ?g)" by simp
  have at: "yielded ?g ! 1 = (8, Name, ''dims'')" by simp
  have no: "\<not> (Name = Name \<and> ''dims'' \<in> set EXTRA_KEYWORDS)"
    by (simp add: EXTRA_KEYWORDS_def)
  from other_token_unchanged [OF len at no] at no show ?thesis by simp
qed

subsection \<open>Shape of the output\<close>

text \<open>
  C4: the run of \<^verbatim>\<open>get_tokens_unprocessed\<close> yields as many tokens as the inherited run,
  and they carry the same indices and the same texts in the same order: no token is
  inserted, deleted, merged or moved.
\<close>

theorem same_length_same_order:
  "length (yielded (get_tokens_unprocessed g)) = length (yielded g)
   \<and> map fst (yielded (get_tokens_unprocessed g)) = map fst (yielded g)
   \<and> map (\<lambda>t. snd (snd t)) (yielded (get_tokens_unprocessed g))
       = map (\<lambda>t. snd (snd t)) (yielded g)"
  by (simp add: yielded_get_tokens_unprocessed split_def)

text \<open>
  C5: running the loop over its own output changes nothing, a reclassified token having
  the type \<^verbatim>\<open>Keyword\<close>, which is not \<^verbatim>\<open>Name\<close>.
\<close>

theorem get_tokens_unprocessed_idempotent:
  "get_tokens_unprocessed (get_tokens_unprocessed g) = get_tokens_unprocessed g"
proof (induction g)
  case StopIteration
  show ?case by simp
next
  case (Raise e)
  show ?case by simp
next
  case (Yield t g)
  obtain index token "value" where t: "t = (index, token, value)"
    by (cases t) auto
  from Yield Keyword_neq_Name show ?case
    unfolding t by simp
qed

text \<open>
  C6: the token that comes out at place \<open>i\<close> depends on the token that went in at place
  \<open>i\<close> and on nothing else: two inherited runs with the same token at place \<open>i\<close> give
  the same token at place \<open>i\<close>, whatever their other tokens are.
\<close>

theorem output_depends_on_own_token:
  assumes "i < length (yielded g1)"
    and "i < length (yielded g2)"
    and "yielded g1 ! i = yielded g2 ! i"
  shows "yielded (get_tokens_unprocessed g1) ! i = yielded (get_tokens_unprocessed g2) ! i"
  using assms by (simp add: yielded_get_tokens_unprocessed)

theorem output_depends_on_own_token_witness:
  "yielded (Yield (0, Keyword, ''int'') (Yield (4, Name, ''htri_t'') StopIteration)
       :: unit generator) ! 1
     = yielded (Yield (0, Name, ''hid_t'')
         (Yield (4, Name, ''htri_t'') (Yield (11, Name, ''HTRI_T'') (Raise ())))) ! 1
   \<and> yielded (get_tokens_unprocessed
        (Yield (0, Keyword, ''int'') (Yield (4, Name, ''htri_t'') StopIteration)
          :: unit generator)) ! 1
     = yielded (get_tokens_unprocessed
         (Yield (0, Name, ''hid_t'')
           (Yield (4, Name, ''htri_t'') (Yield (11, Name, ''HTRI_T'') (Raise ()))))) ! 1"
proof -
  let ?g1 = "Yield (0, Keyword, ''int'') (Yield (4, Name, ''htri_t'') StopIteration)
               :: unit generator"
  let ?g2 = "Yield (0, Name, ''hid_t'')
               (Yield (4, Name, ''htri_t'') (Yield (11, Name, ''HTRI_T'') (Raise ())))"
  have l1: "1 < length (yielded ?g1)" by simp
  have l2: "1 < length (yielded ?g2)" by simp
  have same: "yielded ?g1 ! 1 = yielded ?g2 ! 1" by simp
  from output_depends_on_own_token [OF l1 l2 same] same show ?thesis by blast
qed

text \<open>
  The membership test compares the text with each entry of the list by equality of
  strings, so the letter case matters: \<^verbatim>\<open>HID_T\<close> is not \<^verbatim>\<open>hid_t\<close>.
\<close>

lemma membership_case_sensitive:
  "get_tokens_unprocessed (Yield (0, Name, ''HID_T'') StopIteration)
     = Yield (0, Name, ''HID_T'') StopIteration"
  by (simp add: EXTRA_KEYWORDS_def)

subsection \<open>The examples of the specification\<close>

text \<open>
  C7: the token \<^verbatim>\<open>(10, Name, "hid_t")\<close> comes out as \<^verbatim>\<open>(10, Keyword, "hid_t")\<close>; the
  tokens \<^verbatim>\<open>(20, Name, "int")\<close> and \<^verbatim>\<open>(5, Comment, "hid_t")\<close> come out as they went in.
\<close>

theorem specification_examples:
  "get_tokens_unprocessed (Yield (10, Name, ''hid_t'') StopIteration)
     = Yield (10, Keyword, ''hid_t'') StopIteration
   \<and> get_tokens_unprocessed (Yield (20, Name, ''int'') StopIteration)
     = Yield (20, Name, ''int'') StopIteration
   \<and> get_tokens_unprocessed (Yield (5, Comment, ''hid_t'') StopIteration)
     = Yield (5, Comment, ''hid_t'') StopIteration"
  by (simp add: EXTRA_KEYWORDS_def Name_def Comment_def)

subsection \<open>Failure\<close>

text \<open>
  The loop of lines 21 to 25 ends as the run it consumes ends, with the same exception or
  with none.
\<close>

lemma raised_get_tokens_unprocessed:
  "raised (get_tokens_unprocessed g) = raised g"
proof (induction g)
  case StopIteration
  show ?case by simp
next
  case (Raise e)
  show ?case by simp
next
  case (Yield t g)
  obtain index token "value" where t: "t = (index, token, value)"
    by (cases t) auto
  from Yield show ?case
    unfolding t by simp
qed

text \<open>
  The inherited method takes the keyword \<^verbatim>\<open>stack\<close>, and the method of line 20 does not.
\<close>

lemma accepts_stack:
  "accepts CLexer [''stack''] \<and> \<not> accepts HDF5CLexer [''stack'']"
  by (simp add: accepts_def)

text \<open>
  C8 does not hold of the method: on the text \<^verbatim>\<open>hid_t f();\<close> the run of an
  \<^verbatim>\<open>HDF5CLexer\<close> yields the tokens at 0 and 5 and then raises \<^verbatim>\<open>TypeError\<close>, the
  inherited generator calling the method with the keyword \<^verbatim>\<open>stack\<close>, while the run of a
  \<^verbatim>\<open>CLexer\<close> on the same text yields its six tokens and raises nothing.
\<close>

theorem prototype_raises_TypeError:
  "raised (lexer_get_tokens_unprocessed HDF5CLexer library_types prototype) = Some TypeError
   \<and> map fst (yielded (lexer_get_tokens_unprocessed HDF5CLexer library_types prototype))
       = [0, 5]
   \<and> raised (lexer_get_tokens_unprocessed CLexer library_types prototype) = None
   \<and> map fst (yielded (lexer_get_tokens_unprocessed CLexer library_types prototype))
       = [0, 5, 6, 7, 8, 9]"
  by (simp add: lexer_get_tokens_unprocessed_def prototype_def accepts_def)

subsection \<open>Subtypes of Name\<close>

text \<open>
  C9: a token whose type is a strict subtype of \<^verbatim>\<open>Name\<close>, such as
  \<^verbatim>\<open>Name.Function\<close>, comes out as it went in, also when its text is in
  \<^verbatim>\<open>EXTRA_KEYWORDS\<close>: the loop asks for \<^verbatim>\<open>Name\<close> itself.
\<close>

theorem subtype_of_Name_unchanged:
  assumes "i < length (yielded g)"
    and "yielded g ! i = (index, token, value)"
    and "strict_subtype token Name"
  shows "yielded (get_tokens_unprocessed g) ! i = (index, token, value)"
proof -
  from assms(3) have "token \<noteq> Name"
    by (simp add: strict_subtype_def)
  with nth_yielded_get_tokens_unprocessed [OF assms(1) assms(2)] show ?thesis
    by simp
qed

theorem subtype_of_Name_unchanged_witness:
  "strict_subtype Name_Function Name
   \<and> ''MPI_Comm'' \<in> set EXTRA_KEYWORDS
   \<and> yielded (get_tokens_unprocessed (Yield (3, Name_Function, ''MPI_Comm'') StopIteration)) ! 0
     = (3, Name_Function, ''MPI_Comm'')"
proof -
  let ?g = "Yield (3, Name_Function, ''MPI_Comm'') StopIteration"
  have len: "0 < length (yielded ?g)" by simp
  have at: "yielded ?g ! 0 = (3, Name_Function, ''MPI_Comm'')" by simp
  have sub: "strict_subtype Name_Function Name"
    by (simp add: strict_subtype_def Name_Function_def Name_def)
  have mem: "''MPI_Comm'' \<in> set EXTRA_KEYWORDS"
    by (simp add: EXTRA_KEYWORDS_def)
  from subtype_of_Name_unchanged [OF len at sub] sub mem show ?thesis by blast
qed

subsection \<open>An invariant of the output\<close>

text \<open>
  C10: no token that comes out has the type \<^verbatim>\<open>Name\<close> itself together with a text
  of \<^verbatim>\<open>EXTRA_KEYWORDS\<close>, and this is so by reclassification: as many tokens come out
  as went in, and where such a token went in, the token with the same index, the type
  \<^verbatim>\<open>Keyword\<close> and the same text comes out at the same place.
\<close>

theorem keyword_names_eliminated_by_reclassification:
  "length (yielded (get_tokens_unprocessed g)) = length (yielded g)
   \<and> (\<forall>t \<in> set (yielded (get_tokens_unprocessed g)).
         \<not> (fst (snd t) = Name \<and> snd (snd t) \<in> set EXTRA_KEYWORDS))
   \<and> (\<forall>i < length (yielded g).
         fst (snd (yielded g ! i)) = Name \<and> snd (snd (yielded g ! i)) \<in> set EXTRA_KEYWORDS
         \<longrightarrow> yielded (get_tokens_unprocessed g) ! i
               = (fst (yielded g ! i), Keyword, snd (snd (yielded g ! i))))"
proof (intro conjI ballI allI impI)
  show "length (yielded (get_tokens_unprocessed g)) = length (yielded g)"
    by (rule length_yielded_get_tokens_unprocessed)
next
  fix t
  assume "t \<in> set (yielded (get_tokens_unprocessed g))"
  then obtain u where u: "u \<in> set (yielded g)"
    and out: "t =
      (\<lambda>(index, token, value).
          if token = Name \<and> value \<in> set EXTRA_KEYWORDS
          then (index, Keyword, value) else (index, token, value)) u"
    unfolding yielded_get_tokens_unprocessed by auto
  obtain index token "value" where "u = (index, token, value)"
    by (cases u) auto
  with out Keyword_neq_Name
  show "\<not> (fst (snd t) = Name \<and> snd (snd t) \<in> set EXTRA_KEYWORDS)"
    by (simp split: if_splits)
next
  fix i
  assume i: "i < length (yielded g)"
    and m: "fst (snd (yielded g ! i)) = Name
            \<and> snd (snd (yielded g ! i)) \<in> set EXTRA_KEYWORDS"
  obtain index token "value" where at: "yielded g ! i = (index, token, value)"
    by (cases "yielded g ! i") auto
  from nth_yielded_get_tokens_unprocessed [OF i at] m at
  show "yielded (get_tokens_unprocessed g) ! i
          = (fst (yielded g ! i), Keyword, snd (snd (yielded g ! i)))"
    by simp
qed

theorem keyword_names_eliminated_by_reclassification_witness:
  "length (yielded (get_tokens_unprocessed
      (Yield (0, Name, ''hid_t'') (Yield (6, Name, ''file_id'') StopIteration)))) = 2
   \<and> (6, Name, ''file_id'') \<in> set (yielded (get_tokens_unprocessed
      (Yield (0, Name, ''hid_t'') (Yield (6, Name, ''file_id'') StopIteration))))
   \<and> ''file_id'' \<notin> set EXTRA_KEYWORDS
   \<and> ''hid_t'' \<in> set EXTRA_KEYWORDS
   \<and> yielded (get_tokens_unprocessed
      (Yield (0, Name, ''hid_t'') (Yield (6, Name, ''file_id'') StopIteration))) ! 0
     = (0, Keyword, ''hid_t'')"
proof -
  let ?g = "Yield (0, Name, ''hid_t'') (Yield (6, Name, ''file_id'') StopIteration)"
  note th = keyword_names_eliminated_by_reclassification [of ?g]
  from th have len: "length (yielded (get_tokens_unprocessed ?g)) = 2"
    by simp
  have out: "(6, Name, ''file_id'') \<in> set (yielded (get_tokens_unprocessed ?g))"
    by (simp add: EXTRA_KEYWORDS_def)
  from th out have no: "''file_id'' \<notin> set EXTRA_KEYWORDS"
    by fastforce
  have mem: "''hid_t'' \<in> set EXTRA_KEYWORDS"
    by (simp add: EXTRA_KEYWORDS_def)
  from th mem have first: "yielded (get_tokens_unprocessed ?g) ! 0 = (0, Keyword, ''hid_t'')"
    by simp
  from len out no mem first show ?thesis by blast
qed

end
